theory Spec2Isabelle
  imports Main
begin

section \<open>Python values used by main.py\<close>

text \<open>
  A Python \<open>str\<close> is a sequence of Unicode code points, so it is modelled as a list
  of natural numbers (one per code point) and not as a list of 8-bit characters.
  Source literals are ASCII and are written with \<open>lit\<close>.
\<close>

type_synonym pystr = "nat list"

definition lit :: "string \<Rightarrow> pystr" where
  "lit s = map of_char s"

text \<open>
  \<open>str.isspace\<close> on one code point, as \<open>str.strip()\<close> without argument uses it:
  the code points with bidirectional type WS, B or S, or category Zs.
\<close>

definition isspace :: "nat \<Rightarrow> bool" where
  "isspace c \<longleftrightarrow>
     (9 \<le> c \<and> c \<le> 13) \<or> (28 \<le> c \<and> c \<le> 32) \<or> c = 133 \<or> c = 160 \<or> c = 5760 \<or>
     (8192 \<le> c \<and> c \<le> 8202) \<or> c = 8232 \<or> c = 8233 \<or> c = 8239 \<or> c = 8287 \<or>
     c = 12288"

definition lstrip :: "pystr \<Rightarrow> pystr" where
  "lstrip s = dropWhile isspace s"

definition rstrip :: "pystr \<Rightarrow> pystr" where
  "rstrip s = rev (dropWhile isspace (rev s))"

text \<open>\<open>s.strip()\<close>: the leading run of whitespace goes, then the trailing one.\<close>

definition strip :: "pystr \<Rightarrow> pystr" where
  "strip s = rstrip (lstrip s)"

text \<open>Decimal rendering of a number, as \<open>str(n)\<close> and the f-string \<open>{n}\<close> give it.\<close>

fun str_nat :: "nat \<Rightarrow> pystr" where
  "str_nat n = (if n < 10 then [48 + n] else str_nat (n div 10) @ [48 + n mod 10])"

declare str_nat.simps [simp del]

definition str_int :: "int \<Rightarrow> pystr" where
  "str_int i = (if i < 0 then 45 # str_nat (nat (- i)) else str_nat (nat i))"

text \<open>
  The values a Record holds. \<open>created_utc\<close> is a Python float: it is only carried
  from the item to the file, so its type is the parameter \<open>'t\<close>.
\<close>

datatype 't pyval = PyNone | PyStr pystr | PyInt int | PyFloat 't

text \<open>A dict literal keeps the order of its keys: an association list.\<close>

type_synonym 't pydict = "(pystr \<times> 't pyval) list"

text \<open>
  The exceptions of a run: a failed lookup in \<open>os.environ\<close>, \<open>sys.exit(n)\<close>, an
  error of the forum client (any \<open>Exception\<close> it raises, with its description), and
  the two ways in which writing the file fails: a string that UTF-8 cannot encode, and
  an error of the operating system (with its description).
\<close>

datatype exn =
  KeyError pystr
| SystemExit int
| SourceError pystr
| UnicodeEncodeError
| OSError pystr

section \<open>Module constants\<close>

definition SUBREDDITS :: "pystr list" where
  "SUBREDDITS =
     [lit ''eldercare'', lit ''caregivers'', lit ''agingparents'',
      lit ''dementia'', lit ''nursing'', lit ''premed'']"

definition SEARCH_QUERY :: pystr where
  "SEARCH_QUERY = lit ''care OR dementia OR help OR caregiver OR senior''"

definition POST_LIMIT_PER_SUB :: nat where
  "POST_LIMIT_PER_SUB = 50"

definition OUTPUT_CSV :: pystr where
  "OUTPUT_CSV = lit ''caregiving_reddit_posts.csv''"

section \<open>The external collaborators\<close>

text \<open>
  An item as the forum client hands it over (a praw submission): the attributes
  \<open>fetch_posts\<close> reads. \<open>selftext\<close> may be absent (\<open>None\<close>).
\<close>

record 't submission =
  id' :: pystr
  title :: pystr
  selftext :: "pystr option"
  score :: int
  num_comments :: int
  created_utc :: 't
  permalink :: pystr
  stickied :: bool

text \<open>The handle \<open>praw.Reddit(...)\<close> returns: its five settings and its mode.\<close>

record reddit =
  cfg_client_id :: pystr
  cfg_client_secret :: pystr
  cfg_user_agent :: pystr
  cfg_username :: pystr
  cfg_password :: pystr
  read_only :: bool

text \<open>Calls made to the forum client, in the order the program makes them.\<close>

datatype praw_call =
  Reddit_call pystr pystr pystr pystr pystr
| Search_call pystr pystr nat

text \<open>
  What the program is linked against and cannot see into:
  \<^item> the mode in which the library starts a freshly built handle;
  \<^item> \<open>subreddit(name).search(query, limit=n)\<close> on a handle: the items the lazy
    sequence yields, and the description of the error that ends the iteration, if one
    does (raised to the program as \<open>SourceError\<close>);
  \<^item> how pandas renders a float cell;
  \<^item> whether the csv writer of the interpreter at hand puts a field that holds a
    carriage return in quotes (releases of the interpreter differ in this);
  \<^item> whether the operating system refuses the write of a text to a path: if it does,
    the description of the error, and what the path holds afterwards (nothing new when
    the file could not even be opened).
\<close>

record 't extern =
  initial_read_only :: bool
  search :: "reddit \<Rightarrow> pystr \<Rightarrow> pystr \<Rightarrow> nat \<Rightarrow> 't submission list \<times> pystr option"
  float_repr :: "'t \<Rightarrow> pystr"
  quotes_cr :: bool
  write_fault :: "pystr \<Rightarrow> pystr \<Rightarrow> (pystr option \<times> pystr) option"

text \<open>
  The process state the program reads and changes: the environment, the files of the
  working directory, both output streams, and the log of calls to the forum client.
\<close>

record world =
  environ :: "pystr \<rightharpoonup> pystr"
  files :: "pystr \<rightharpoonup> pystr"
  stdout :: pystr
  stderr :: pystr
  calls :: "praw_call list"

definition print_out :: "pystr \<Rightarrow> world \<Rightarrow> world" where
  "print_out s w = w\<lparr>stdout := stdout w @ s @ [10]\<rparr>"

definition print_err :: "pystr \<Rightarrow> world \<Rightarrow> world" where
  "print_err s w = w\<lparr>stderr := stderr w @ s @ [10]\<rparr>"

section \<open>fetch_posts\<close>

text \<open>\<open>x or ''\<close> for an optional string: \<open>None\<close> and \<open>''\<close> are both falsy.\<close>

definition or_empty :: "pystr option \<Rightarrow> pystr" where
  "or_empty x = (case x of None \<Rightarrow> [] | Some b \<Rightarrow> (if b = [] then [] else b))"

text \<open>The body of the inner \<open>for post in ...\<close> loop; \<open>continue\<close> leaves \<open>results\<close> as it is.\<close>

definition loop_body :: "pystr \<Rightarrow> 't pydict list \<Rightarrow> 't submission \<Rightarrow> 't pydict list" where
  "loop_body sub_name results post =
     (if stickied post then results
      else
        let text = strip (title post @ [10, 10] @ or_empty (selftext post))
        in if text = [] then results
           else results @
             [[(lit ''subreddit'', PyStr sub_name),
               (lit ''id'', PyStr (id' post)),
               (lit ''title'', PyStr (title post)),
               (lit ''body'', (case selftext post of None \<Rightarrow> PyNone | Some b \<Rightarrow> PyStr b)),
               (lit ''score'', PyInt (score post)),
               (lit ''num_comments'', PyInt (num_comments post)),
               (lit ''created_utc'', PyFloat (created_utc post)),
               (lit ''permalink'', PyStr (lit ''https://www.reddit.com'' @ permalink post)),
               (lit ''text'', PyStr text)]])"

text \<open>
  The outer loop over the channel names still to visit. An error raised while a
  channel's items are iterated leaves the function at once: \<open>results\<close> is lost.
\<close>

fun fetch_loop ::
  "'t extern \<Rightarrow> reddit \<Rightarrow> pystr list \<Rightarrow> 't pydict list \<Rightarrow> world \<Rightarrow> (exn + 't pydict list) \<times> world"
where
  "fetch_loop ext r [] results w = (Inr results, w)"
| "fetch_loop ext r (sub_name # rest) results w =
     (let w1 = print_out (lit ''Fetching posts from r/'' @ sub_name @ lit '' ...'') w;
          w2 = w1\<lparr>calls := calls w1 @ [Search_call sub_name SEARCH_QUERY POST_LIMIT_PER_SUB]\<rparr>;
          (posts, err) = search ext r sub_name SEARCH_QUERY POST_LIMIT_PER_SUB;
          results' = foldl (loop_body sub_name) results posts
      in case err of
           Some e \<Rightarrow> (Inl (SourceError e), w2)
         | None \<Rightarrow> fetch_loop ext r rest results' w2)"

definition fetch_posts :: "'t extern \<Rightarrow> reddit \<Rightarrow> world \<Rightarrow> (exn + 't pydict list) \<times> world" where
  "fetch_posts ext r w = fetch_loop ext r SUBREDDITS [] w"

section \<open>get_reddit_client\<close>

text \<open>\<open>os.environ[k]\<close> raises \<open>KeyError(k)\<close> for an unset name; \<open>os.environ.get(k, d)\<close> never raises.\<close>

definition environ_getitem :: "(pystr \<rightharpoonup> pystr) \<Rightarrow> pystr \<Rightarrow> exn + pystr" where
  "environ_getitem e k = (case e k of None \<Rightarrow> Inl (KeyError k) | Some v \<Rightarrow> Inr v)"

definition environ_get :: "(pystr \<rightharpoonup> pystr) \<Rightarrow> pystr \<Rightarrow> pystr \<Rightarrow> pystr" where
  "environ_get e k d = (case e k of None \<Rightarrow> d | Some v \<Rightarrow> v)"

text \<open>
  The f-string \<open>{e}\<close> of a caught \<open>KeyError\<close> is the \<open>repr\<close> of the key; the names
  looked up here are plain ASCII identifiers, whose \<open>repr\<close> only adds the two quotes.
\<close>

definition str_KeyError :: "pystr \<Rightarrow> pystr" where
  "str_KeyError k = [39] @ k @ [39]"

text \<open>The body of the \<open>try\<close>: five reads in source order, left at the first \<open>KeyError\<close>.\<close>

definition read_settings ::
  "(pystr \<rightharpoonup> pystr) \<Rightarrow> exn + (pystr \<times> pystr \<times> pystr \<times> pystr \<times> pystr)" where
  "read_settings e =
     (case environ_getitem e (lit ''REDDIT_CLIENT_ID'') of
        Inl x \<Rightarrow> Inl x
      | Inr client_id \<Rightarrow>
     (case environ_getitem e (lit ''REDDIT_CLIENT_SECRET'') of
        Inl x \<Rightarrow> Inl x
      | Inr client_secret \<Rightarrow>
     (case environ_getitem e (lit ''REDDIT_USERNAME'') of
        Inl x \<Rightarrow> Inl x
      | Inr username \<Rightarrow>
     (case environ_getitem e (lit ''REDDIT_PASSWORD'') of
        Inl x \<Rightarrow> Inl x
      | Inr password \<Rightarrow>
          Inr (client_id, client_secret, username, password,
               environ_get e (lit ''REDDIT_USER_AGENT'')
                 (lit ''caregiving-intent-miner (read-only research script)''))))))"

text \<open>The constructor \<open>praw.Reddit(client_id=..., ...)\<close>, in the mode the library starts with.\<close>

definition praw_Reddit ::
  "'t extern \<Rightarrow> pystr \<Rightarrow> pystr \<Rightarrow> pystr \<Rightarrow> pystr \<Rightarrow> pystr \<Rightarrow> reddit" where
  "praw_Reddit ext cid cs ua u p =
     \<lparr>cfg_client_id = cid, cfg_client_secret = cs, cfg_user_agent = ua, cfg_username = u,
      cfg_password = p, read_only = initial_read_only ext\<rparr>"

definition get_reddit_client :: "'t extern \<Rightarrow> world \<Rightarrow> (exn + reddit) \<times> world" where
  "get_reddit_client ext w =
     (case read_settings (environ w) of
        Inl (KeyError k) \<Rightarrow>
          (Inl (SystemExit 1),
           print_err (lit ''Missing environment variable: '' @ str_KeyError k) w)
      | Inl x \<Rightarrow> (Inl x, w)
      | Inr (client_id, client_secret, username, password, user_agent) \<Rightarrow>
          (let r = praw_Reddit ext client_id client_secret user_agent username password;
               w1 = w\<lparr>calls := calls w @
                      [Reddit_call client_id client_secret user_agent username password]\<rparr>;
               r = r\<lparr>read_only := True\<rparr>
           in (Inr r, w1)))"

section \<open>The export\<close>

text \<open>
  \<open>pd.DataFrame(posts)\<close> for a list of dicts: the columns are the keys in the order in
  which they first appear, and a row has the dict's value in each column, or a missing
  value where the dict lacks the key.
\<close>

record 't dataframe =
  columns :: "pystr list"
  rows :: "'t pyval list list"

definition first_seen :: "'a list \<Rightarrow> 'a list" where
  "first_seen xs = rev (remdups (rev xs))"

definition DataFrame :: "'t pydict list \<Rightarrow> 't dataframe" where
  "DataFrame data =
     (let cols = first_seen (concat (map (map fst) data))
      in \<lparr>columns = cols,
          rows = map (\<lambda>d. map (\<lambda>c. case map_of d c of None \<Rightarrow> PyNone | Some v \<Rightarrow> v) cols) data\<rparr>)"

text \<open>A cell as text: a missing value or \<open>None\<close> is the empty field.\<close>

definition cell_str :: "'t extern \<Rightarrow> 't pyval \<Rightarrow> pystr" where
  "cell_str ext v =
     (case v of PyNone \<Rightarrow> [] | PyStr s \<Rightarrow> s | PyInt i \<Rightarrow> str_int i | PyFloat t \<Rightarrow> float_repr ext t)"

text \<open>
  The comma-separated encoding with minimal quoting, lines ended by a newline (the
  line separator of a POSIX system): a field holding the delimiter, the quote
  character or a newline is put in quotes, its quotes doubled; a carriage return has
  the same effect with some releases of the interpreter only.
\<close>

definition needs_quote :: "'t extern \<Rightarrow> pystr \<Rightarrow> bool" where
  "needs_quote ext f \<longleftrightarrow>
     (\<exists>c \<in> set f. c = 44 \<or> c = 34 \<or> c = 10 \<or> (c = 13 \<and> quotes_cr ext))"

definition csv_field :: "'t extern \<Rightarrow> pystr \<Rightarrow> pystr" where
  "csv_field ext f =
     (if needs_quote ext f
      then [34] @ concat (map (\<lambda>c. if c = 34 then [34, 34] else [c]) f) @ [34]
      else f)"

fun join :: "pystr \<Rightarrow> pystr list \<Rightarrow> pystr" where
  "join sep [] = []"
| "join sep [x] = x"
| "join sep (x # y # ys) = x @ sep @ join sep (y # ys)"

text \<open>One record of the file; a lone empty field is written as a pair of quotes.\<close>

definition csv_line :: "'t extern \<Rightarrow> pystr list \<Rightarrow> pystr" where
  "csv_line ext fs =
     (if fs = [[]] then [34, 34] else join [44] (map (csv_field ext) fs)) @ [10]"

text \<open>The lines \<open>df.to_csv(path, index=False)\<close> writes: the header, then the rows, no index column.\<close>

definition csv_lines :: "'t extern \<Rightarrow> 't dataframe \<Rightarrow> pystr list" where
  "csv_lines ext df = map (csv_line ext) (columns df # map (map (cell_str ext)) (rows df))"

text \<open>
  The file is opened with the strict UTF-8 codec, which refuses the surrogate code
  points: a line is encoded when it is written, so a line that holds one is not
  written and ends the write.
\<close>

definition surrogate :: "nat \<Rightarrow> bool" where
  "surrogate c \<longleftrightarrow> 55296 \<le> c \<and> c \<le> 57343"

definition encodable :: "pystr \<Rightarrow> bool" where
  "encodable s \<longleftrightarrow> list_all (\<lambda>c. \<not> surrogate c) s"

text \<open>
  \<open>df.to_csv(path, index=False)\<close>. The lines are written one after the other, up to
  the first that cannot be encoded. When the operating system refuses the write,
  \<open>OSError\<close> is raised and the path holds what the system left there. Otherwise the
  file at \<open>path\<close> is created or replaced with the lines written, and
  \<open>UnicodeEncodeError\<close> is raised if a line was left out.
\<close>

definition to_csv ::
  "'t extern \<Rightarrow> 't dataframe \<Rightarrow> pystr \<Rightarrow> world \<Rightarrow> (exn + unit) \<times> world" where
  "to_csv ext df path w =
     (let lines = csv_lines ext df;
          written = concat (takeWhile encodable lines)
      in case write_fault ext path written of
           Some (left, msg) \<Rightarrow>
             (Inl (OSError msg),
              (case left of None \<Rightarrow> w | Some t \<Rightarrow> w\<lparr>files := (files w)(path \<mapsto> t)\<rparr>))
         | None \<Rightarrow>
             (let w1 = w\<lparr>files := (files w)(path \<mapsto> written)\<rparr>
              in if list_all encodable lines then (Inr (), w1)
                 else (Inl UnicodeEncodeError, w1)))"

section \<open>main\<close>

datatype outcome = Returned | Raised exn

definition main :: "'t extern \<Rightarrow> world \<Rightarrow> outcome \<times> world" where
  "main ext w =
     (case get_reddit_client ext w of
        (Inl x, w1) \<Rightarrow> (Raised x, w1)
      | (Inr r, w1) \<Rightarrow>
     (case fetch_posts ext r w1 of
        (Inl x, w2) \<Rightarrow> (Raised x, w2)
      | (Inr posts, w2) \<Rightarrow>
          if posts = [] then
            (Returned,
             print_out (lit ''No posts collected. Try adjusting SEARCH_QUERY or limits.'') w2)
          else
            let df = DataFrame posts
            in case to_csv ext df OUTPUT_CSV w2 of
                 (Inl x, w3) \<Rightarrow> (Raised x, w3)
               | (Inr u, w3) \<Rightarrow>
                   (Returned,
                    print_out (lit ''Saved '' @ str_nat (length (rows df)) @ lit '' posts to '' @
                               OUTPUT_CSV) w3)))"

text \<open>
  The exit status of the interpreter: 0 when \<open>main\<close> returns, the argument of
  \<open>sys.exit\<close>, and 1 for any other exception that nothing caught.
\<close>

definition exit_status :: "outcome \<Rightarrow> int" where
  "exit_status out =
     (case out of Returned \<Rightarrow> 0 | Raised (SystemExit n) \<Rightarrow> n | Raised _ \<Rightarrow> 1)"

section \<open>Example runs\<close>

text \<open>
  Inputs on which the definitions are evaluated below: three items, a forum client
  that finds two of them in \<open>eldercare\<close> and one in \<open>dementia\<close>, and a process
  started with the given environment, no files and nothing printed yet.
\<close>

definition item_a :: "nat submission" where
  "item_a = \<lparr>id' = lit ''a1'', title = lit ''Need help'', selftext = Some (lit ''for my mom''),
     score = 3, num_comments = 1, created_utc = 1700000000,
     permalink = lit ''/r/eldercare/comments/a1/need_help/'', stickied = False\<rparr>"

definition item_b :: "nat submission" where
  "item_b = \<lparr>id' = lit ''b2'', title = lit ''Mod notice'', selftext = Some [],
     score = 1, num_comments = 0, created_utc = 1700000100,
     permalink = lit ''/r/eldercare/comments/b2/mod_notice/'', stickied = True\<rparr>"

definition item_x :: "nat submission" where
  "item_x = \<lparr>id' = lit ''c3'', title = lit ''x'', selftext = None,
     score = -2, num_comments = 7, created_utc = 1700000200,
     permalink = lit ''/r/dementia/comments/c3/x/'', stickied = False\<rparr>"

definition example_search :: "reddit \<Rightarrow> pystr \<Rightarrow> pystr \<Rightarrow> nat \<Rightarrow> nat submission list \<times> pystr option" where
  "example_search r sub_name query limit =
     (if sub_name = lit ''eldercare'' then ([item_a, item_b], None)
      else if sub_name = lit ''dementia'' then ([item_x], None)
      else ([], None))"

definition example_extern :: "nat extern" where
  "example_extern = \<lparr>initial_read_only = False, search = example_search,
     float_repr = (\<lambda>t. str_nat t @ lit ''.0''), quotes_cr = True,
     write_fault = (\<lambda>path text. None)\<rparr>"

definition example_world :: "(pystr \<times> pystr) list \<Rightarrow> world" where
  "example_world settings =
     \<lparr>environ = map_of settings, files = Map.empty, stdout = [], stderr = [], calls = []\<rparr>"

definition four_settings :: "(pystr \<times> pystr) list" where
  "four_settings =
     [(lit ''REDDIT_CLIENT_ID'', lit ''abc''), (lit ''REDDIT_CLIENT_SECRET'', lit ''s3cret''),
      (lit ''REDDIT_USERNAME'', lit ''someone''), (lit ''REDDIT_PASSWORD'', lit ''pw'')]"

text \<open>A handle as the factory returns it.\<close>

definition example_reddit :: reddit where
  "example_reddit =
     \<lparr>cfg_client_id = lit ''abc'', cfg_client_secret = lit ''s3cret'',
      cfg_user_agent = lit ''caregiving-intent-miner (read-only research script)'',
      cfg_username = lit ''someone'', cfg_password = lit ''pw'', read_only = True\<rparr>"



text \<open>A forum client that finds the stickied item, and nothing else, in every channel.\<close>

definition pinned_search :: "reddit \<Rightarrow> pystr \<Rightarrow> pystr \<Rightarrow> nat \<Rightarrow> nat submission list \<times> pystr option" where
  "pinned_search r sub_name query limit = ([item_b], None)"

definition pinned_extern :: "nat extern" where
  "pinned_extern = \<lparr>initial_read_only = False, search = pinned_search,
     float_repr = (\<lambda>t. str_nat t @ lit ''.0''), quotes_cr = True,
     write_fault = (\<lambda>path text. None)\<rparr>"




text \<open>The items and the closing error of the one query \<open>fetch_posts\<close> makes to a channel.\<close>

abbreviation (input) "found ext r s \<equiv> search ext r s SEARCH_QUERY POST_LIMIT_PER_SUB"

text \<open>The keys of the dict literal in \<open>fetch_posts\<close>, in the order written.\<close>

abbreviation (input) "record_keys \<equiv>
  [lit ''subreddit'', lit ''id'', lit ''title'', lit ''body'', lit ''score'',
   lit ''num_comments'', lit ''created_utc'', lit ''permalink'', lit ''text'']"

section \<open>Properties of the iteration\<close>

lemma foldl_loop_body:
  "foldl (loop_body s) results posts = results @ concat (map (loop_body s []) posts)"
proof (induction posts arbitrary: results)
  case Nil show ?case by simp
next
  case (Cons p ps)
  have "loop_body s results p = results @ loop_body s [] p"
    by (simp add: loop_body_def Let_def)
  then show ?case using Cons.IH by simp
qed

lemma strip_append_space:
  assumes "strip t \<noteq> []" and "\<forall>c \<in> set u. isspace c"
  shows "strip (t @ u) = strip t"
proof -
  from assms(1) have "\<exists>x \<in> set t. \<not> isspace x"
    by (auto simp: strip_def rstrip_def lstrip_def dest: set_dropWhileD)
  then have "dropWhile isspace (t @ u) = dropWhile isspace t @ u"
    by (auto simp: dropWhile_append1)
  moreover have "dropWhile isspace (rev u @ rev (dropWhile isspace t)) =
      dropWhile isspace (rev (dropWhile isspace t))"
    using assms(2) by (intro dropWhile_append2) simp
  ultimately show ?thesis
    by (simp add: strip_def rstrip_def lstrip_def)
qed

lemma or_empty_eq: "or_empty x = (case x of None \<Rightarrow> [] | Some b \<Rightarrow> b)"
  by (simp add: or_empty_def split: option.splits)

lemma loop_body_cases:
  "loop_body s results p =
     (if \<not> stickied p \<and> strip (title p @ [10, 10] @ (case selftext p of None \<Rightarrow> [] | Some b \<Rightarrow> b)) \<noteq> []
      then results @
             [[(lit ''subreddit'', PyStr s),
               (lit ''id'', PyStr (id' p)),
               (lit ''title'', PyStr (title p)),
               (lit ''body'', (case selftext p of None \<Rightarrow> PyNone | Some b \<Rightarrow> PyStr b)),
               (lit ''score'', PyInt (score p)),
               (lit ''num_comments'', PyInt (num_comments p)),
               (lit ''created_utc'', PyFloat (created_utc p)),
               (lit ''permalink'', PyStr (lit ''https://www.reddit.com'' @ permalink p)),
               (lit ''text'', PyStr (strip (title p @ [10, 10] @ (case selftext p of None \<Rightarrow> [] | Some b \<Rightarrow> b))))]]
      else results)"
  by (simp add: loop_body_def Let_def or_empty_eq)

lemma fetch_loop_Inr:
  "fetch_loop ext r subs res w = (Inr rs, w') \<Longrightarrow>
     rs = res @ concat (map (\<lambda>s. concat (map (loop_body s []) (fst (found ext r s)))) subs) \<and>
     calls w' = calls w @ map (\<lambda>s. Search_call s SEARCH_QUERY POST_LIMIT_PER_SUB) subs \<and>
     (\<forall>s \<in> set subs. snd (found ext r s) = None)"
proof (induction subs arbitrary: res w)
  case Nil
  then show ?case by simp
next
  case (Cons s subs)
  obtain posts err where se: "found ext r s = (posts, err)"
    by (cases "found ext r s")
  show ?case
  proof (cases err)
    case None
    with Cons.prems se have
      "fetch_loop ext r subs (foldl (loop_body s) res posts)
         ((print_out (lit ''Fetching posts from r/'' @ s @ lit '' ...'') w)
            \<lparr>calls := calls w @ [Search_call s SEARCH_QUERY POST_LIMIT_PER_SUB]\<rparr>) = (Inr rs, w')"
      by (simp add: Let_def print_out_def)
    from Cons.IH [OF this] se None show ?thesis
      by (simp add: foldl_loop_body)
  next
    case (Some e)
    with Cons.prems se show ?thesis by (simp add: Let_def)
  qed
qed

lemma fetch_loop_frame:
  "files (snd (fetch_loop ext r subs res w)) = files w \<and>
   environ (snd (fetch_loop ext r subs res w)) = environ w \<and>
   stderr (snd (fetch_loop ext r subs res w)) = stderr w"
proof (induction subs arbitrary: res w)
  case Nil
  then show ?case by simp
next
  case (Cons a subs)
  obtain posts err where se: "found ext r a = (posts, err)"
    by (cases "found ext r a")
  show ?case
    using se Cons.IH by (cases err) (simp_all add: Let_def print_out_def)
qed

lemma fetch_loop_calls_prefix:
  "\<exists>n \<le> length subs. calls (snd (fetch_loop ext r subs res w)) =
      calls w @ map (\<lambda>s. Search_call s SEARCH_QUERY POST_LIMIT_PER_SUB) (take n subs)"
proof (induction subs arbitrary: res w)
  case Nil
  then show ?case by simp
next
  case (Cons a subs)
  obtain posts err where se: "found ext r a = (posts, err)"
    by (cases "found ext r a")
  show ?case
  proof (cases err)
    case None
    let ?w2 = "(print_out (lit ''Fetching posts from r/'' @ a @ lit '' ...'') w)
            \<lparr>calls := calls w @ [Search_call a SEARCH_QUERY POST_LIMIT_PER_SUB]\<rparr>"
    from Cons.IH [of "foldl (loop_body a) res posts" ?w2]
    obtain n where "n \<le> length subs" and
      "calls (snd (fetch_loop ext r subs (foldl (loop_body a) res posts) ?w2)) =
       calls ?w2 @ map (\<lambda>s. Search_call s SEARCH_QUERY POST_LIMIT_PER_SUB) (take n subs)"
      by blast
    with se None show ?thesis
      by (intro exI [of _ "Suc n"]) (simp add: Let_def print_out_def)
  next
    case (Some e)
    with se show ?thesis
      by (intro exI [of _ "Suc 0"]) (simp add: Let_def print_out_def)
  qed
qed

section \<open>The filter and the combined text\<close>

text \<open>
  C1. One turn of the inner loop, on any item and with any Records collected so far:
  the item adds a Record exactly when it is not stickied and the trimmed concatenation
  of its title, two newlines and its body (nothing for an absent body) is not empty;
  the Record it adds has that trimmed concatenation in its \<open>text\<close> field; otherwise
  the collected Records stay as they are.
\<close>

theorem record_emitted_iff:
  "let text = strip (title post @ [10, 10] @ (case selftext post of None \<Rightarrow> [] | Some b \<Rightarrow> b))
   in (if \<not> stickied post \<and> text \<noteq> []
       then \<exists>rec. loop_body sub_name results post = results @ [rec] \<and>
                  map_of rec (lit ''text'') = Some (PyStr text)
       else loop_body sub_name results post = results)"
  by (simp add: loop_body_cases Let_def lit_def)

theorem record_emitted_iff_witness:
  "\<exists>rec. loop_body (lit ''eldercare'') []
      \<lparr>id' = lit ''a1'', title = lit ''Need help'', selftext = Some (lit ''for my mom''),
       score = 3, num_comments = 1, created_utc = (1700000000::nat),
       permalink = lit ''/r/eldercare/a1'', stickied = False\<rparr> = [rec] \<and>
     map_of rec (lit ''text'') = Some (PyStr (lit ''Need help'' @ [10, 10] @ lit ''for my mom''))"
  using record_emitted_iff [where sub_name = "lit ''eldercare''" and results = "[]" and post =
      "\<lparr>id' = lit ''a1'', title = lit ''Need help'', selftext = Some (lit ''for my mom''),
       score = 3, num_comments = 1, created_utc = (1700000000::nat),
       permalink = lit ''/r/eldercare/a1'', stickied = False\<rparr>"]
  by (simp add: Let_def strip_def lstrip_def rstrip_def isspace_def lit_def)

text \<open>
  C7, as the code has it. An item without body, not stickied, whose title is not empty
  after trimming, adds one Record; the Record's \<open>body\<close> field holds the absent
  value of the item (\<open>None\<close>, not the empty string) and its \<open>text\<close> field is the
  trimmed title.
\<close>

theorem absent_body_record:
  assumes "\<not> stickied post" and "selftext post = None" and "strip (title post) \<noteq> []"
  shows "\<exists>rec. loop_body sub_name results post = results @ [rec] \<and>
           map_of rec (lit ''body'') = Some PyNone \<and>
           map_of rec (lit ''text'') = Some (PyStr (strip (title post)))"
proof -
  have "isspace 10" by (simp add: isspace_def)
  then have "strip (title post @ [10, 10]) = strip (title post)"
    using assms(3) by (intro strip_append_space) simp_all
  with assms show ?thesis
    by (simp add: loop_body_cases lit_def)
qed

theorem absent_body_record_witness:
  "\<exists>rec. loop_body (lit ''dementia'') []
      \<lparr>id' = lit ''b2'', title = lit ''x'', selftext = None,
       score = 0, num_comments = 0, created_utc = (1700000000::nat),
       permalink = lit ''/r/dementia/b2'', stickied = False\<rparr> = [rec] \<and>
     map_of rec (lit ''body'') = Some PyNone \<and>
     map_of rec (lit ''text'') = Some (PyStr (lit ''x''))"
  using absent_body_record [where sub_name = "lit ''dementia''" and results = "[]" and post =
      "\<lparr>id' = lit ''b2'', title = lit ''x'', selftext = None,
       score = 0, num_comments = 0, created_utc = (1700000000::nat),
       permalink = lit ''/r/dementia/b2'', stickied = False\<rparr>"]
  by (simp add: strip_def lstrip_def rstrip_def isspace_def lit_def)

text \<open>
  The item with title \<open>x\<close> and no body: when stickied it adds no Record; when not
  stickied it adds one Record whose \<open>body\<close> field is \<open>None\<close>, which is not the
  empty string.
\<close>

theorem absent_body_counterexample:
  "loop_body (lit ''dementia'') []
      \<lparr>id' = lit ''b2'', title = lit ''x'', selftext = None,
       score = 0, num_comments = 0, created_utc = (1700000000::nat),
       permalink = lit ''/r/dementia/b2'', stickied = True\<rparr> = [] \<and>
   length (loop_body (lit ''dementia'') []
      \<lparr>id' = lit ''b2'', title = lit ''x'', selftext = None,
       score = 0, num_comments = 0, created_utc = (1700000000::nat),
       permalink = lit ''/r/dementia/b2'', stickied = False\<rparr>) = 1 \<and>
   map_of (hd (loop_body (lit ''dementia'') []
      \<lparr>id' = lit ''b2'', title = lit ''x'', selftext = None,
       score = 0, num_comments = 0, created_utc = (1700000000::nat),
       permalink = lit ''/r/dementia/b2'', stickied = False\<rparr>)) (lit ''body'') = Some PyNone \<and>
   (PyNone :: nat pyval) \<noteq> PyStr []"
  by (simp add: loop_body_def Let_def or_empty_def strip_def lstrip_def rstrip_def isspace_def lit_def)


section \<open>The client factory\<close>

lemma get_reddit_client_present:
  assumes "environ w (lit ''REDDIT_CLIENT_ID'') = Some a"
    and "environ w (lit ''REDDIT_CLIENT_SECRET'') = Some b"
    and "environ w (lit ''REDDIT_USERNAME'') = Some c"
    and "environ w (lit ''REDDIT_PASSWORD'') = Some d"
  shows "get_reddit_client ext w =
     (Inr \<lparr>cfg_client_id = a, cfg_client_secret = b,
           cfg_user_agent = environ_get (environ w) (lit ''REDDIT_USER_AGENT'')
              (lit ''caregiving-intent-miner (read-only research script)''),
           cfg_username = c, cfg_password = d, read_only = True\<rparr>,
      w\<lparr>calls := calls w @ [Reddit_call a b
            (environ_get (environ w) (lit ''REDDIT_USER_AGENT'')
              (lit ''caregiving-intent-miner (read-only research script)'')) c d]\<rparr>)"
  using assms
  by (simp add: get_reddit_client_def read_settings_def environ_getitem_def praw_Reddit_def Let_def)

lemma get_reddit_client_absent:
  assumes "List.find (\<lambda>k. environ w k = None)
      [lit ''REDDIT_CLIENT_ID'', lit ''REDDIT_CLIENT_SECRET'', lit ''REDDIT_USERNAME'',
       lit ''REDDIT_PASSWORD''] = Some k"
  shows "get_reddit_client ext w =
     (Inl (SystemExit 1), print_err (lit ''Missing environment variable: '' @ [39] @ k @ [39]) w)"
  using assms
  by (auto simp: get_reddit_client_def read_settings_def environ_getitem_def str_KeyError_def
      split: if_splits option.splits)

lemma get_reddit_client_frame:
  "files (snd (get_reddit_client ext w)) = files w \<and>
   stdout (snd (get_reddit_client ext w)) = stdout w \<and>
   environ (snd (get_reddit_client ext w)) = environ w"
  by (simp add: get_reddit_client_def Let_def print_err_def split: sum.splits exn.splits prod.splits)

lemma main_client_fails:
  "get_reddit_client ext w = (Inl x, w1) \<Longrightarrow> main ext w = (Raised x, w1)"
  by (simp add: main_def)

lemma fst_get_reddit_client:
  "fst (get_reddit_client ext w) =
     (case read_settings (environ w) of
        Inl (KeyError k) \<Rightarrow> Inl (SystemExit 1)
      | Inl x \<Rightarrow> Inl x
      | Inr (a, b, c, d, ua) \<Rightarrow>
          Inr \<lparr>cfg_client_id = a, cfg_client_secret = b, cfg_user_agent = ua,
               cfg_username = c, cfg_password = d, read_only = True\<rparr>)"
  by (simp add: get_reddit_client_def praw_Reddit_def Let_def
      split: sum.splits exn.splits prod.splits)

lemma read_settings_cong:
  assumes "\<forall>k \<in> set [lit ''REDDIT_CLIENT_ID'', lit ''REDDIT_CLIENT_SECRET'',
      lit ''REDDIT_USERNAME'', lit ''REDDIT_PASSWORD'', lit ''REDDIT_USER_AGENT'']. e2 k = e k"
  shows "read_settings e2 = read_settings e"
proof -
  from assms have eq:
    "e2 (lit ''REDDIT_CLIENT_ID'') = e (lit ''REDDIT_CLIENT_ID'')"
    "e2 (lit ''REDDIT_CLIENT_SECRET'') = e (lit ''REDDIT_CLIENT_SECRET'')"
    "e2 (lit ''REDDIT_USERNAME'') = e (lit ''REDDIT_USERNAME'')"
    "e2 (lit ''REDDIT_PASSWORD'') = e (lit ''REDDIT_PASSWORD'')"
    "e2 (lit ''REDDIT_USER_AGENT'') = e (lit ''REDDIT_USER_AGENT'')"
    by simp_all
  show ?thesis
    unfolding read_settings_def environ_getitem_def environ_get_def eq ..
qed

text \<open>
  C9. Whenever \<open>get_reddit_client\<close> returns a handle, the handle is in read-only
  mode, whatever mode the library built it in.
\<close>

theorem handle_read_only:
  "get_reddit_client ext w = (Inr r, w') \<Longrightarrow> read_only r"
  by (auto simp: get_reddit_client_def Let_def split: sum.splits exn.splits prod.splits)

theorem handle_read_only_witness:
  "\<not> initial_read_only example_extern \<and>
   (\<exists>r w'. get_reddit_client example_extern (example_world four_settings) = (Inr r, w') \<and>
      read_only r)"
proof -
  obtain r w' where g: "get_reddit_client example_extern (example_world four_settings) = (Inr r, w')"
    using get_reddit_client_present [of "example_world four_settings" "lit ''abc''"
        "lit ''s3cret''" "lit ''someone''" "lit ''pw''" example_extern]
    by (simp add: example_world_def four_settings_def lit_def)
  from handle_read_only [OF g] g show ?thesis
    by (auto simp: example_extern_def)
qed

text \<open>
  C10. A required variable that is set counts as present whatever its value, the empty
  string included: the factory does not exit, and builds the handle from the values as
  they are. The optional variable, when set, replaces the default, also when it is
  empty; the default is used only when the variable is not set.
\<close>

theorem empty_value_is_present:
  assumes "environ w (lit ''REDDIT_CLIENT_ID'') = Some a"
    and "environ w (lit ''REDDIT_CLIENT_SECRET'') = Some b"
    and "environ w (lit ''REDDIT_USERNAME'') = Some c"
    and "environ w (lit ''REDDIT_PASSWORD'') = Some d"
  shows "\<exists>ua. get_reddit_client ext w =
       (Inr \<lparr>cfg_client_id = a, cfg_client_secret = b, cfg_user_agent = ua,
             cfg_username = c, cfg_password = d, read_only = True\<rparr>,
        w\<lparr>calls := calls w @ [Reddit_call a b ua c d]\<rparr>) \<and>
       ua = (case environ w (lit ''REDDIT_USER_AGENT'') of
               None \<Rightarrow> lit ''caregiving-intent-miner (read-only research script)''
             | Some v \<Rightarrow> v)"
  using get_reddit_client_present [OF assms, of ext]
  by (simp add: environ_get_def)

theorem empty_value_is_present_witness:
  "get_reddit_client example_extern
     (example_world
        [(lit ''REDDIT_CLIENT_ID'', []), (lit ''REDDIT_CLIENT_SECRET'', []),
         (lit ''REDDIT_USERNAME'', []), (lit ''REDDIT_PASSWORD'', []),
         (lit ''REDDIT_USER_AGENT'', [])]) =
   (Inr \<lparr>cfg_client_id = [], cfg_client_secret = [], cfg_user_agent = [],
         cfg_username = [], cfg_password = [], read_only = True\<rparr>,
    (example_world
        [(lit ''REDDIT_CLIENT_ID'', []), (lit ''REDDIT_CLIENT_SECRET'', []),
         (lit ''REDDIT_USERNAME'', []), (lit ''REDDIT_PASSWORD'', []),
         (lit ''REDDIT_USER_AGENT'', [])])\<lparr>calls := [Reddit_call [] [] [] [] []]\<rparr>)"
  using empty_value_is_present [where ext = example_extern and a = "[]" and b = "[]" and c = "[]"
      and d = "[]" and w = "example_world
        [(lit ''REDDIT_CLIENT_ID'', []), (lit ''REDDIT_CLIENT_SECRET'', []),
         (lit ''REDDIT_USERNAME'', []), (lit ''REDDIT_PASSWORD'', []),
         (lit ''REDDIT_USER_AGENT'', [])]"]
  by (simp add: example_world_def lit_def)

text \<open>
  C2. When one of the four credential variables is not set, the run ends in
  \<open>sys.exit(1)\<close>: the line written to standard error names the first variable, in
  the order of the reads, that is not set (the one that is missing, when it is the only
  one), no file is written and the forum client is never called, whatever the other
  variables hold.
\<close>

theorem missing_credential_exits:
  assumes "k \<in> set [lit ''REDDIT_CLIENT_ID'', lit ''REDDIT_CLIENT_SECRET'',
                    lit ''REDDIT_USERNAME'', lit ''REDDIT_PASSWORD'']"
    and "environ w k = None"
  shows "\<exists>k'. List.find (\<lambda>k. environ w k = None)
             [lit ''REDDIT_CLIENT_ID'', lit ''REDDIT_CLIENT_SECRET'',
              lit ''REDDIT_USERNAME'', lit ''REDDIT_PASSWORD''] = Some k' \<and>
           main ext w =
             (Raised (SystemExit 1),
              w\<lparr>stderr := stderr w @ lit ''Missing environment variable: '' @ [39] @ k' @ [39] @ [10]\<rparr>) \<and>
           exit_status (fst (main ext w)) = 1 \<and>
           files (snd (main ext w)) = files w \<and>
           calls (snd (main ext w)) = calls w \<and>
           ((\<forall>j \<in> set [lit ''REDDIT_CLIENT_ID'', lit ''REDDIT_CLIENT_SECRET'',
                         lit ''REDDIT_USERNAME'', lit ''REDDIT_PASSWORD'']. j \<noteq> k \<longrightarrow>
               environ w j \<noteq> None) \<longrightarrow> k' = k)"
proof -
  let ?names = "[lit ''REDDIT_CLIENT_ID'', lit ''REDDIT_CLIENT_SECRET'',
                 lit ''REDDIT_USERNAME'', lit ''REDDIT_PASSWORD'']"
  from assms have "List.find (\<lambda>k. environ w k = None) ?names \<noteq> None"
    unfolding find_None_iff by blast
  then obtain k' where k': "List.find (\<lambda>k. environ w k = None) ?names = Some k'"
    by blast
  have "main ext w =
      (Raised (SystemExit 1),
       print_err (lit ''Missing environment variable: '' @ [39] @ k' @ [39]) w)"
    by (rule main_client_fails) (rule get_reddit_client_absent [OF k'])
  moreover from k' obtain i where i: "i < length ?names"
    and "environ w (?names ! i) = None" and "k' = ?names ! i"
    unfolding find_Some_iff by blast
  then have "k' \<in> set ?names" and "environ w k' = None"
    using nth_mem [OF i] by simp_all
  then have "k' = k" if "\<forall>j \<in> set ?names. j \<noteq> k \<longrightarrow> environ w j \<noteq> None"
    using that by blast
  ultimately show ?thesis
    using k' by (simp add: print_err_def exit_status_def)
qed

theorem missing_credential_exits_witness:
  "main example_extern
     (example_world
        [(lit ''REDDIT_CLIENT_ID'', lit ''abc''), (lit ''REDDIT_CLIENT_SECRET'', lit ''s3cret''),
         (lit ''REDDIT_USERNAME'', lit ''someone''), (lit ''REDDIT_USER_AGENT'', lit ''ua'')]) =
   (Raised (SystemExit 1),
    (example_world
        [(lit ''REDDIT_CLIENT_ID'', lit ''abc''), (lit ''REDDIT_CLIENT_SECRET'', lit ''s3cret''),
         (lit ''REDDIT_USERNAME'', lit ''someone''), (lit ''REDDIT_USER_AGENT'', lit ''ua'')])
      \<lparr>stderr := lit ''Missing environment variable: '' @ [39] @ lit ''REDDIT_PASSWORD'' @ [39, 10]\<rparr>)"
  using missing_credential_exits [where ext = example_extern and k = "lit ''REDDIT_PASSWORD''"
      and w = "example_world
        [(lit ''REDDIT_CLIENT_ID'', lit ''abc''), (lit ''REDDIT_CLIENT_SECRET'', lit ''s3cret''),
         (lit ''REDDIT_USERNAME'', lit ''someone''), (lit ''REDDIT_USER_AGENT'', lit ''ua'')]"]
  by (simp add: example_world_def lit_def)

text \<open>
  C8, as the code has it. The factory reads four required values and one optional value
  with a fixed default: it returns a handle exactly when the four are set, exits with
  status 1 when one of them is not, takes the client identification from the fifth
  variable or else the default, and its result depends on no other variable.
\<close>

theorem four_required_one_optional:
  "((\<exists>r w'. get_reddit_client ext w = (Inr r, w')) \<longleftrightarrow>
      (\<forall>k \<in> set [lit ''REDDIT_CLIENT_ID'', lit ''REDDIT_CLIENT_SECRET'',
                  lit ''REDDIT_USERNAME'', lit ''REDDIT_PASSWORD'']. environ w k \<noteq> None)) \<and>
   ((\<exists>k \<in> set [lit ''REDDIT_CLIENT_ID'', lit ''REDDIT_CLIENT_SECRET'',
                lit ''REDDIT_USERNAME'', lit ''REDDIT_PASSWORD'']. environ w k = None) \<longrightarrow>
      fst (get_reddit_client ext w) = Inl (SystemExit 1)) \<and>
   (\<forall>r w'. get_reddit_client ext w = (Inr r, w') \<longrightarrow>
      cfg_user_agent r =
        (case environ w (lit ''REDDIT_USER_AGENT'') of
           None \<Rightarrow> lit ''caregiving-intent-miner (read-only research script)''
         | Some v \<Rightarrow> v)) \<and>
   (\<forall>w2. (\<forall>k \<in> set [lit ''REDDIT_CLIENT_ID'', lit ''REDDIT_CLIENT_SECRET'',
                     lit ''REDDIT_USERNAME'', lit ''REDDIT_PASSWORD'',
                     lit ''REDDIT_USER_AGENT'']. environ w2 k = environ w k) \<longrightarrow>
      fst (get_reddit_client ext w2) = fst (get_reddit_client ext w))"
proof (intro conjI allI impI)
  let ?names = "[lit ''REDDIT_CLIENT_ID'', lit ''REDDIT_CLIENT_SECRET'',
                 lit ''REDDIT_USERNAME'', lit ''REDDIT_PASSWORD'']"
  have absent: "fst (get_reddit_client ext w) = Inl (SystemExit 1)"
    if "\<exists>k \<in> set ?names. environ w k = None"
  proof -
    from that have "List.find (\<lambda>k. environ w k = None) ?names \<noteq> None"
      unfolding find_None_iff by blast
    then obtain k' where "List.find (\<lambda>k. environ w k = None) ?names = Some k'"
      by blast
    from get_reddit_client_absent [OF this, of ext] show ?thesis by simp
  qed
  show "fst (get_reddit_client ext w) = Inl (SystemExit 1)"
    if "\<exists>k \<in> set ?names. environ w k = None"
    using that by (rule absent)
  show "(\<exists>r w'. get_reddit_client ext w = (Inr r, w')) \<longleftrightarrow>
      (\<forall>k \<in> set ?names. environ w k \<noteq> None)"
  proof
    assume "\<exists>r w'. get_reddit_client ext w = (Inr r, w')"
    then show "\<forall>k \<in> set ?names. environ w k \<noteq> None"
      using absent by fastforce
  next
    assume "\<forall>k \<in> set ?names. environ w k \<noteq> None"
    then obtain a b c d where
      "environ w (lit ''REDDIT_CLIENT_ID'') = Some a"
      "environ w (lit ''REDDIT_CLIENT_SECRET'') = Some b"
      "environ w (lit ''REDDIT_USERNAME'') = Some c"
      "environ w (lit ''REDDIT_PASSWORD'') = Some d"
      by auto
    from get_reddit_client_present [OF this, of ext]
    show "\<exists>r w'. get_reddit_client ext w = (Inr r, w')" by blast
  qed
  show "cfg_user_agent r =
        (case environ w (lit ''REDDIT_USER_AGENT'') of
           None \<Rightarrow> lit ''caregiving-intent-miner (read-only research script)''
         | Some v \<Rightarrow> v)"
    if "get_reddit_client ext w = (Inr r, w')" for r w'
    using that
    by (auto simp: get_reddit_client_def read_settings_def environ_get_def praw_Reddit_def Let_def
        split: sum.splits exn.splits prod.splits)
  show "fst (get_reddit_client ext w2) = fst (get_reddit_client ext w)"
    if "\<forall>k \<in> set [lit ''REDDIT_CLIENT_ID'', lit ''REDDIT_CLIENT_SECRET'',
                     lit ''REDDIT_USERNAME'', lit ''REDDIT_PASSWORD'',
                     lit ''REDDIT_USER_AGENT'']. environ w2 k = environ w k" for w2
    using read_settings_cong [OF that] by (simp add: fst_get_reddit_client)
qed

theorem four_required_one_optional_witness:
  "\<exists>r w'. get_reddit_client example_extern (example_world four_settings) = (Inr r, w') \<and>
     cfg_user_agent r = lit ''caregiving-intent-miner (read-only research script)''"
  using four_required_one_optional [of example_extern "example_world four_settings"]
  by (auto simp: example_world_def four_settings_def lit_def)

text \<open>
  An environment in which only four variables are set: the factory returns a handle,
  so there is no fifth required value.
\<close>

theorem five_required_counterexample:
  "dom (environ (example_world four_settings)) =
     {lit ''REDDIT_CLIENT_ID'', lit ''REDDIT_CLIENT_SECRET'', lit ''REDDIT_USERNAME'',
      lit ''REDDIT_PASSWORD''} \<and>
   fst (get_reddit_client example_extern (example_world four_settings)) =
     Inr \<lparr>cfg_client_id = lit ''abc'', cfg_client_secret = lit ''s3cret'',
          cfg_user_agent = lit ''caregiving-intent-miner (read-only research script)'',
          cfg_username = lit ''someone'', cfg_password = lit ''pw'', read_only = True\<rparr>"
  by (simp add: example_world_def four_settings_def fst_get_reddit_client read_settings_def
      environ_getitem_def environ_get_def lit_def dom_map_of_conv_image_fst)

section \<open>The whole run\<close>


lemma main_client_ok:
  "get_reddit_client ext w = (Inr r, w1) \<Longrightarrow>
   main ext w =
     (case fetch_posts ext r w1 of
        (Inl x, w2) \<Rightarrow> (Raised x, w2)
      | (Inr posts, w2) \<Rightarrow>
          if posts = [] then
            (Returned,
             print_out (lit ''No posts collected. Try adjusting SEARCH_QUERY or limits.'') w2)
          else
            (case to_csv ext (DataFrame posts) OUTPUT_CSV w2 of
               (Inl x, w3) \<Rightarrow> (Raised x, w3)
             | (Inr u, w3) \<Rightarrow>
                 (Returned,
                  print_out (lit ''Saved '' @ str_nat (length (rows (DataFrame posts))) @
                             lit '' posts to '' @ OUTPUT_CSV) w3)))"
  by (simp add: main_def Let_def split: prod.splits sum.splits)




lemma files_after_client:
  "get_reddit_client ext w = (Inr r, w1) \<Longrightarrow> files w1 = files w"
  using get_reddit_client_frame [of ext w] by simp

lemma files_after_fetch:
  "fetch_posts ext r w1 = (res, w2) \<Longrightarrow> files w2 = files w1"
  using fetch_loop_frame [of ext r SUBREDDITS "[]" w1] by (simp add: fetch_posts_def)



lemma fetch_loop_returns:
  "\<forall>s \<in> set subs. snd (found ext r s) = None \<Longrightarrow>
     \<exists>w'. fetch_loop ext r subs res w =
       (Inr (res @ concat (map (\<lambda>s. concat (map (loop_body s []) (fst (found ext r s)))) subs)), w')"
proof (induction subs arbitrary: res w)
  case Nil
  then show ?case by simp
next
  case (Cons a subs)
  obtain posts where se: "found ext r a = (posts, None)"
    using Cons.prems by (cases "found ext r a") simp
  from Cons.prems have "\<forall>s \<in> set subs. snd (found ext r s) = None" by simp
  from Cons.IH [OF this, of "foldl (loop_body a) res posts"
        "(print_out (lit ''Fetching posts from r/'' @ a @ lit '' ...'') w)
            \<lparr>calls := calls w @ [Search_call a SEARCH_QUERY POST_LIMIT_PER_SUB]\<rparr>"]
  obtain w' where "fetch_loop ext r subs (foldl (loop_body a) res posts)
        ((print_out (lit ''Fetching posts from r/'' @ a @ lit '' ...'') w)
            \<lparr>calls := calls w @ [Search_call a SEARCH_QUERY POST_LIMIT_PER_SUB]\<rparr>) =
       (Inr (foldl (loop_body a) res posts @
          concat (map (\<lambda>s. concat (map (loop_body s []) (fst (found ext r s)))) subs)), w')"
    by blast
  with se have "fetch_loop ext r (a # subs) res w =
       (Inr (res @ concat (map (\<lambda>s. concat (map (loop_body s []) (fst (found ext r s)))) (a # subs))), w')"
    by (simp add: Let_def print_out_def foldl_loop_body)
  then show ?case by blast
qed

lemma kept_ids:
  "map (\<lambda>d. (map_of d (lit ''subreddit''), map_of d (lit ''id''))) (concat (map (loop_body s []) ps)) =
   map (\<lambda>p. (Some (PyStr s), Some (PyStr (id' p))))
     (filter (\<lambda>p. \<not> stickied p \<and>
        strip (title p @ [10, 10] @ (case selftext p of None \<Rightarrow> [] | Some b \<Rightarrow> b)) \<noteq> []) ps)"
  by (induction ps) (simp_all add: loop_body_cases lit_def)

lemma kept_ids_concat:
  "map (\<lambda>d. (map_of d (lit ''subreddit''), map_of d (lit ''id'')))
     (concat (map (\<lambda>s. concat (map (loop_body s []) (f s))) subs)) =
   concat (map (\<lambda>s. map (\<lambda>p. (Some (PyStr s), Some (PyStr (id' p))))
     (filter (\<lambda>p. \<not> stickied p \<and>
        strip (title p @ [10, 10] @ (case selftext p of None \<Rightarrow> [] | Some b \<Rightarrow> b)) \<noteq> []) (f s))) subs)"
  by (induction subs) (simp_all add: kept_ids)

lemma join_query:
  "SEARCH_QUERY =
     join (lit '' OR '') [lit ''care'', lit ''dementia'', lit ''help'', lit ''caregiver'', lit ''senior'']"
  by (simp add: SEARCH_QUERY_def lit_def)

section \<open>An empty collection\<close>

text \<open>
  C6. When \<open>fetch_posts\<close> returns no Record, \<open>main\<close> prints the notice and
  returns: the files are those the run started with, and the exit status is 0.
\<close>

theorem empty_result_no_file:
  assumes "get_reddit_client ext w = (Inr r, w1)"
    and "fetch_posts ext r w1 = (Inr [], w2)"
  shows "main ext w =
           (Returned,
            w2\<lparr>stdout := stdout w2 @
                 lit ''No posts collected. Try adjusting SEARCH_QUERY or limits.'' @ [10]\<rparr>) \<and>
         files (snd (main ext w)) = files w \<and>
         exit_status (fst (main ext w)) = 0"
proof -
  have m: "main ext w =
      (Returned, print_out (lit ''No posts collected. Try adjusting SEARCH_QUERY or limits.'') w2)"
    by (simp add: main_client_ok [OF assms(1)] assms(2))
  have "files w2 = files w"
    using files_after_fetch [OF assms(2)] files_after_client [OF assms(1)] by simp
  then show ?thesis
    unfolding m by (simp add: print_out_def exit_status_def)
qed

theorem empty_result_no_file_witness:
  "fst (main pinned_extern (example_world four_settings)) = Returned \<and>
   files (snd (main pinned_extern (example_world four_settings))) = Map.empty \<and>
   exit_status (fst (main pinned_extern (example_world four_settings))) = 0"
proof -
  obtain r w1 where g: "get_reddit_client pinned_extern (example_world four_settings) = (Inr r, w1)"
    using get_reddit_client_present [of "example_world four_settings" "lit ''abc''"
        "lit ''s3cret''" "lit ''someone''" "lit ''pw''" pinned_extern]
    by (simp add: example_world_def four_settings_def lit_def)
  have "\<forall>s \<in> set SUBREDDITS. snd (found pinned_extern r s) = None"
    by (simp add: pinned_extern_def pinned_search_def)
  from fetch_loop_returns [OF this, of "[]" w1]
  obtain w2 where "fetch_posts pinned_extern r w1 =
      (Inr (concat (map (\<lambda>s. concat (map (loop_body s []) (fst (found pinned_extern r s)))) SUBREDDITS)), w2)"
    by (auto simp: fetch_posts_def)
  moreover have "concat (map (\<lambda>s. concat (map (loop_body s []) (fst (found pinned_extern r s)))) SUBREDDITS) = []"
    by (simp add: pinned_extern_def pinned_search_def loop_body_def item_b_def)
  ultimately have f: "fetch_posts pinned_extern r w1 = (Inr [], w2)" by simp
  note t = empty_result_no_file [OF g f]
  have "fst (main pinned_extern (example_world four_settings)) = Returned"
    using t [THEN conjunct1] by simp
  moreover have "files (snd (main pinned_extern (example_world four_settings))) =
      files (example_world four_settings)"
    using t [THEN conjunct2, THEN conjunct1] .
  moreover have "exit_status (fst (main pinned_extern (example_world four_settings))) = 0"
    using t [THEN conjunct2, THEN conjunct2] .
  moreover have "files (example_world four_settings) = Map.empty"
    by (simp add: example_world_def)
  ultimately show ?thesis by simp
qed

section \<open>An error of the forum client\<close>



section \<open>The channels and their order\<close>

text \<open>
  C5. The channel list is the six names in the order given, the search expression is
  the five terms joined by \<open>OR\<close>, and the cap is 50. \<open>fetch_posts\<close> queries the
  channels from the front of the list, each with that expression and that cap; when it
  returns, it has queried all six, in order, and its Records are those of the first
  channel's items in the order the search gave them, then those of the second, and so
  on: the channel and identifier of the Records are those of the items kept, in that
  order.
\<close>

theorem channels_in_order:
  "SUBREDDITS =
     [lit ''eldercare'', lit ''caregivers'', lit ''agingparents'',
      lit ''dementia'', lit ''nursing'', lit ''premed''] \<and>
   SEARCH_QUERY =
     join (lit '' OR '')
       [lit ''care'', lit ''dementia'', lit ''help'', lit ''caregiver'', lit ''senior''] \<and>
   POST_LIMIT_PER_SUB = 50 \<and>
   (\<exists>n \<le> length SUBREDDITS. calls (snd (fetch_posts ext r w)) =
      calls w @ map (\<lambda>s. Search_call s SEARCH_QUERY POST_LIMIT_PER_SUB) (take n SUBREDDITS)) \<and>
   (\<forall>rs w'. fetch_posts ext r w = (Inr rs, w') \<longrightarrow>
      calls w' = calls w @ map (\<lambda>s. Search_call s SEARCH_QUERY POST_LIMIT_PER_SUB) SUBREDDITS \<and>
      rs = concat (map (\<lambda>s. concat (map (loop_body s [])
             (fst (search ext r s SEARCH_QUERY POST_LIMIT_PER_SUB)))) SUBREDDITS) \<and>
      map (\<lambda>d. (map_of d (lit ''subreddit''), map_of d (lit ''id''))) rs =
        concat (map (\<lambda>s. map (\<lambda>p. (Some (PyStr s), Some (PyStr (id' p))))
          (filter (\<lambda>p. \<not> stickied p \<and>
             strip (title p @ [10, 10] @ (case selftext p of None \<Rightarrow> [] | Some b \<Rightarrow> b)) \<noteq> [])
           (fst (search ext r s SEARCH_QUERY POST_LIMIT_PER_SUB)))) SUBREDDITS))"
proof (intro conjI allI impI)
  show "SUBREDDITS =
     [lit ''eldercare'', lit ''caregivers'', lit ''agingparents'',
      lit ''dementia'', lit ''nursing'', lit ''premed'']"
    by (rule SUBREDDITS_def)
  show "SEARCH_QUERY =
     join (lit '' OR '')
       [lit ''care'', lit ''dementia'', lit ''help'', lit ''caregiver'', lit ''senior'']"
    by (rule join_query)
  show "POST_LIMIT_PER_SUB = 50"
    by (rule POST_LIMIT_PER_SUB_def)
  show "\<exists>n \<le> length SUBREDDITS. calls (snd (fetch_posts ext r w)) =
      calls w @ map (\<lambda>s. Search_call s SEARCH_QUERY POST_LIMIT_PER_SUB) (take n SUBREDDITS)"
    unfolding fetch_posts_def by (rule fetch_loop_calls_prefix)
next
  fix rs w'
  assume "fetch_posts ext r w = (Inr rs, w')"
  then have f: "fetch_loop ext r SUBREDDITS [] w = (Inr rs, w')"
    by (simp add: fetch_posts_def)
  note t = fetch_loop_Inr [OF f]
  show "calls w' = calls w @ map (\<lambda>s. Search_call s SEARCH_QUERY POST_LIMIT_PER_SUB) SUBREDDITS"
    using t by simp
  show rs: "rs = concat (map (\<lambda>s. concat (map (loop_body s [])
             (fst (search ext r s SEARCH_QUERY POST_LIMIT_PER_SUB)))) SUBREDDITS)"
    using t by simp
  show "map (\<lambda>d. (map_of d (lit ''subreddit''), map_of d (lit ''id''))) rs =
        concat (map (\<lambda>s. map (\<lambda>p. (Some (PyStr s), Some (PyStr (id' p))))
          (filter (\<lambda>p. \<not> stickied p \<and>
             strip (title p @ [10, 10] @ (case selftext p of None \<Rightarrow> [] | Some b \<Rightarrow> b)) \<noteq> [])
           (fst (search ext r s SEARCH_QUERY POST_LIMIT_PER_SUB)))) SUBREDDITS)"
    unfolding rs by (rule kept_ids_concat)
qed

theorem channels_in_order_witness:
  "\<exists>rs w'. fetch_posts example_extern example_reddit (example_world four_settings) = (Inr rs, w') \<and>
     calls w' = map (\<lambda>s. Search_call s SEARCH_QUERY 50) SUBREDDITS \<and>
     map (\<lambda>d. (map_of d (lit ''subreddit''), map_of d (lit ''id''))) rs =
       [(Some (PyStr (lit ''eldercare'')), Some (PyStr (lit ''a1''))),
        (Some (PyStr (lit ''dementia'')), Some (PyStr (lit ''c3'')))]"
proof -
  let ?w = "example_world four_settings"
  have "\<forall>s \<in> set SUBREDDITS. snd (found example_extern example_reddit s) = None"
    by (simp add: example_extern_def example_search_def)
  from fetch_loop_returns [OF this, of "[]" ?w]
  obtain rs w' where f: "fetch_posts example_extern example_reddit ?w = (Inr rs, w')"
    by (auto simp: fetch_posts_def)
  note t = channels_in_order [of example_extern example_reddit ?w]
  from t f have c: "calls w' =
      calls ?w @ map (\<lambda>s. Search_call s SEARCH_QUERY POST_LIMIT_PER_SUB) SUBREDDITS"
    by blast
  from t f have "map (\<lambda>d. (map_of d (lit ''subreddit''), map_of d (lit ''id''))) rs =
        concat (map (\<lambda>s. map (\<lambda>p. (Some (PyStr s), Some (PyStr (id' p))))
          (filter (\<lambda>p. \<not> stickied p \<and>
             strip (title p @ [10, 10] @ (case selftext p of None \<Rightarrow> [] | Some b \<Rightarrow> b)) \<noteq> [])
           (fst (search example_extern example_reddit s SEARCH_QUERY POST_LIMIT_PER_SUB)))) SUBREDDITS)"
    by blast
  also have "\<dots> =
       [(Some (PyStr (lit ''eldercare'')), Some (PyStr (lit ''a1''))),
        (Some (PyStr (lit ''dementia'')), Some (PyStr (lit ''c3'')))]"
    by (simp add: SUBREDDITS_def example_extern_def example_search_def item_a_def item_b_def
        item_x_def strip_def lstrip_def rstrip_def isspace_def lit_def)
  finally have m: "map (\<lambda>d. (map_of d (lit ''subreddit''), map_of d (lit ''id''))) rs =
       [(Some (PyStr (lit ''eldercare'')), Some (PyStr (lit ''a1''))),
        (Some (PyStr (lit ''dementia'')), Some (PyStr (lit ''c3'')))]" .
  from c have c': "calls w' = map (\<lambda>s. Search_call s SEARCH_QUERY 50) SUBREDDITS"
    by (simp add: example_world_def POST_LIMIT_PER_SUB_def)
  have "fetch_posts example_extern example_reddit ?w = (Inr rs, w') \<and>
     calls w' = map (\<lambda>s. Search_call s SEARCH_QUERY 50) SUBREDDITS \<and>
     map (\<lambda>d. (map_of d (lit ''subreddit''), map_of d (lit ''id''))) rs =
       [(Some (PyStr (lit ''eldercare'')), Some (PyStr (lit ''a1''))),
        (Some (PyStr (lit ''dementia'')), Some (PyStr (lit ''c3'')))]"
    using f c' m by (intro conjI)
  then show ?thesis by (intro exI)
qed

section \<open>The written file\<close>















end
